theory Spec2Isabelle
  imports Complex_Main "HOL-Library.Sublist"
begin

section \<open>Values\<close>

text \<open>
  JSON values as the client handles them. A JavaScript \<open>number\<close> is only ever passed
  through by the client (no arithmetic, no truthiness test), so it is a \<open>real\<close>; an
  object keeps its keys in insertion order, so it is an association list.
\<close>

datatype json =
    JNull
  | JBool bool
  | JNum real
  | JStr string
  | JArr "json list"
  | JObj "(string \<times> json) list"

text \<open>
  A value of a declared optional type \<open>x?: T\<close>. The operators the client applies to such
  values (\<open>??\<close>, \<open>?.\<close>, \<open>!== undefined\<close>, truthiness) tell \<open>undefined\<close> from \<open>null\<close>,
  so both are kept apart from a given value.
\<close>

datatype 'a opt = Undefined | Null | Given 'a

text \<open>\<open>a ?? d\<close>: the default replaces \<open>undefined\<close> and \<open>null\<close> only.\<close>

fun nullish_or :: "'a opt \<Rightarrow> 'a \<Rightarrow> 'a" where
  "nullish_or (Given v) d = v"
| "nullish_or Undefined d = d"
| "nullish_or Null d = d"

text \<open>\<open>o?.f\<close>: \<open>undefined\<close> when \<open>o\<close> is \<open>undefined\<close> or \<open>null\<close>.\<close>

fun opt_chain :: "'r opt \<Rightarrow> ('r \<Rightarrow> 'a opt) \<Rightarrow> 'a opt" where
  "opt_chain (Given r) f = f r"
| "opt_chain Undefined f = Undefined"
| "opt_chain Null f = Undefined"

text \<open>
  Truthiness, as \<open>if (x)\<close> tests it. An array or an object is truthy whatever it holds;
  a string is truthy unless it is empty; \<open>undefined\<close> and \<open>null\<close> are falsy.
\<close>

fun truthy_obj :: "'a opt \<Rightarrow> bool" where
  "truthy_obj (Given v) = True"
| "truthy_obj Undefined = False"
| "truthy_obj Null = False"

fun truthy_str :: "string opt \<Rightarrow> bool" where
  "truthy_str (Given s) = (s \<noteq> [])"
| "truthy_str Undefined = False"
| "truthy_str Null = False"

text \<open>
  The value stored by \<open>params.k = x\<close> for an optional \<open>x\<close>. An assignment stores
  \<open>undefined\<close> as \<open>undefined\<close>, which is no JSON value: the result is optional, and the
  callers below assign only behind a guard that excludes \<open>undefined\<close>.
\<close>

fun json_of :: "('a \<Rightarrow> json) \<Rightarrow> 'a opt \<Rightarrow> json option" where
  "json_of f (Given v) = Some (f v)"
| "json_of f Null = Some JNull"
| "json_of f Undefined = None"

definition JStrs :: "string list \<Rightarrow> json" where
  "JStrs xs = JArr (map JStr xs)"

text \<open>\<open>if (guard) params.k = x\<close>, as the entries it appends to \<open>params\<close>.\<close>

definition assign_if :: "bool \<Rightarrow> string \<Rightarrow> json option \<Rightarrow> (string \<times> json) list" where
  "assign_if guard k x = (if guard then (case x of Some v \<Rightarrow> [(k, v)] | None \<Rightarrow> []) else [])"

section \<open>Configuration and options\<close>

record EngramConfig =
  cfg_baseUrl :: string
  cfg_apiKey :: string
  cfg_tenant :: string
  cfg_timeout :: "real opt"

record CreateOptions =
  co_memoryType :: "string opt"
  co_tags :: "string list opt"
  co_workspace :: "string opt"
  co_metadata :: "(string \<times> json) list opt"
  co_importance :: "real opt"

record ListOptions =
  lo_limit :: "real opt"
  lo_offset :: "real opt"
  lo_workspace :: "string opt"
  lo_memoryType :: "string opt"
  lo_tags :: "string list opt"

record SearchOptions =
  so_limit :: "real opt"
  so_workspace :: "string opt"

record UpdateOptions =
  uo_content :: "string opt"
  uo_tags :: "string list opt"
  uo_metadata :: "(string \<times> json) list opt"
  uo_importance :: "real opt"

section \<open>Parameter assembly\<close>

text \<open>
  Each operation first builds its \<open>params\<close> object and then hands it to \<open>mcpCall\<close>.
  The functions of this section are the first halves: the object literal, followed by the
  guarded assignments in the order of the source.
\<close>

definition create_params :: "string \<Rightarrow> CreateOptions opt \<Rightarrow> (string \<times> json) list" where
  "create_params content options =
     [(''content'', JStr content),
      (''memory_type'', JStr (nullish_or (opt_chain options co_memoryType) ''note''))]
     @ assign_if (truthy_obj (opt_chain options co_tags)) ''tags''
         (json_of JStrs (opt_chain options co_tags))
     @ assign_if (truthy_str (opt_chain options co_workspace)) ''workspace''
         (json_of JStr (opt_chain options co_workspace))
     @ assign_if (truthy_obj (opt_chain options co_metadata)) ''metadata''
         (json_of JObj (opt_chain options co_metadata))
     @ assign_if (opt_chain options co_importance \<noteq> Undefined) ''importance''
         (json_of JNum (opt_chain options co_importance))"

definition get_params :: "real \<Rightarrow> (string \<times> json) list" where
  "get_params memoryId = [(''id'', JNum memoryId)]"

definition update_params :: "real \<Rightarrow> UpdateOptions \<Rightarrow> (string \<times> json) list" where
  "update_params memoryId options =
     [(''id'', JNum memoryId)]
     @ assign_if (uo_content options \<noteq> Undefined) ''content''
         (json_of JStr (uo_content options))
     @ assign_if (uo_tags options \<noteq> Undefined) ''tags''
         (json_of JStrs (uo_tags options))
     @ assign_if (uo_metadata options \<noteq> Undefined) ''metadata''
         (json_of JObj (uo_metadata options))
     @ assign_if (uo_importance options \<noteq> Undefined) ''importance''
         (json_of JNum (uo_importance options))"

definition delete_params :: "real \<Rightarrow> (string \<times> json) list" where
  "delete_params memoryId = [(''id'', JNum memoryId)]"

definition list_params :: "ListOptions opt \<Rightarrow> (string \<times> json) list" where
  "list_params options =
     [(''limit'', JNum (nullish_or (opt_chain options lo_limit) 50)),
      (''offset'', JNum (nullish_or (opt_chain options lo_offset) 0))]
     @ assign_if (truthy_str (opt_chain options lo_workspace)) ''workspace''
         (json_of JStr (opt_chain options lo_workspace))
     @ assign_if (truthy_str (opt_chain options lo_memoryType)) ''memory_type''
         (json_of JStr (opt_chain options lo_memoryType))
     @ assign_if (truthy_obj (opt_chain options lo_tags)) ''tags''
         (json_of JStrs (opt_chain options lo_tags))"

definition search_params :: "string \<Rightarrow> SearchOptions opt \<Rightarrow> (string \<times> json) list" where
  "search_params query options =
     [(''query'', JStr query),
      (''limit'', JNum (nullish_or (opt_chain options so_limit) 10))]
     @ assign_if (truthy_str (opt_chain options so_workspace)) ''workspace''
         (json_of JStr (opt_chain options so_workspace))"

definition related_params :: "real \<Rightarrow> (string \<times> json) list" where
  "related_params memoryId = [(''id'', JNum memoryId)]"

text \<open>
  \<open>edgeType: string = "related_to"\<close>: a parameter default replaces \<open>undefined\<close> only
  (a missing argument), not \<open>null\<close>.
\<close>

fun param_default :: "string opt \<Rightarrow> string \<Rightarrow> string opt" where
  "param_default Undefined d = Given d"
| "param_default Null d = Null"
| "param_default (Given v) d = Given v"

definition link_params :: "real \<Rightarrow> real \<Rightarrow> string opt \<Rightarrow> (string \<times> json) list" where
  "link_params fromId toId edgeType =
     [(''from_id'', JNum fromId), (''to_id'', JNum toId)]
     @ assign_if True ''edge_type'' (json_of JStr (param_default edgeType ''related_to''))"

definition stats_params :: "(string \<times> json) list" where
  "stats_params = []"

section \<open>The client and its runtime\<close>

record EngramClient =
  baseUrl :: string
  headers :: "(string \<times> string) list"
  timeout :: real

text \<open>
  \<open>s.replace(/\/$/, "")\<close>: the pattern has no flag, so \<open>$\<close> matches at the end of the
  string only and at most one match is replaced.
\<close>

definition strip_trailing_slash :: "string \<Rightarrow> string" where
  "strip_trailing_slash s = (if s \<noteq> [] \<and> last s = CHR ''/'' then butlast s else s)"

definition constructor :: "EngramConfig \<Rightarrow> EngramClient" where
  "constructor config =
     \<lparr> baseUrl = strip_trailing_slash (cfg_baseUrl config),
       headers =
         [(''Authorization'', ''Bearer '' @ cfg_apiKey config),
          (''X-Tenant-Slug'', cfg_tenant config),
          (''Content-Type'', ''application/json'')],
       timeout = nullish_or (cfg_timeout config) 30000 \<rparr>"

text \<open>
  The request handed to \<open>fetch\<close>. The body is the payload object given to
  \<open>JSON.stringify\<close>; the serialisation itself is the platform's.
\<close>

record Request =
  url :: string
  http_method :: string
  req_headers :: "(string \<times> string) list"
  body :: json

text \<open>
  What the network answers. \<open>resp.json()\<close> is aborted, fails to parse, or gives the
  parsed body, which is any JSON value: the type the source writes for it,
  \<open>{ error?: { message?: string }; result?: unknown }\<close>, is an unchecked \<open>as\<close> cast.
\<close>

datatype body_outcome =
    BodyAborted
  | BodyMalformed
  | BodyParsed json

record Response =
  resp_status :: nat
  resp_statusText :: string
  resp_json :: body_outcome

text \<open>\<open>Response.ok\<close> of the Fetch API: the status is in the range 200 to 299.\<close>

definition resp_ok :: "Response \<Rightarrow> bool" where
  "resp_ok resp = (200 \<le> resp_status resp \<and> resp_status resp \<le> 299)"

datatype fetch_outcome =
    FetchAborted
  | FetchFailed
  | FetchResolved Response

text \<open>
  What a call throws. \<open>EngramError\<close> carries its message. \<open>EngramErrorOf v\<close> is the
  \<open>EngramError\<close> constructed from a value \<open>v\<close> that is no string: its message is the
  platform's string conversion of \<open>v\<close>, which is not computed here.
\<close>

datatype exn = EngramError string | EngramErrorOf json | AbortError | TypeError | SyntaxError

text \<open>A returned value is a JSON value or \<open>undefined\<close>, which is \<open>None\<close>.\<close>

datatype outcome = Returned "json option" | Threw exn

text \<open>
  \<open>x.k\<close> for one of the keys the client reads (\<open>error\<close>, \<open>message\<close>, \<open>result\<close>): a
  TypeError on \<open>undefined\<close> and \<open>null\<close>, the value under the key for an object (the last
  one, should the key be repeated) and \<open>undefined\<close> for a boolean, a number, a string or
  an array, which have no property of these names.
\<close>

fun get_prop :: "json option \<Rightarrow> string \<Rightarrow> exn + json option" where
  "get_prop None k = Inl TypeError"
| "get_prop (Some JNull) k = Inl TypeError"
| "get_prop (Some (JObj kvs)) k = Inr (map_of (rev kvs) k)"
| "get_prop (Some (JBool b)) k = Inr None"
| "get_prop (Some (JNum n)) k = Inr None"
| "get_prop (Some (JStr t)) k = Inr None"
| "get_prop (Some (JArr xs)) k = Inr None"

text \<open>Truthiness of any value, as \<open>if (x)\<close> tests it.\<close>

fun truthy :: "json option \<Rightarrow> bool" where
  "truthy None = False"
| "truthy (Some JNull) = False"
| "truthy (Some (JBool b)) = b"
| "truthy (Some (JNum n)) = (n \<noteq> 0)"
| "truthy (Some (JStr t)) = (t \<noteq> [])"
| "truthy (Some (JArr xs)) = True"
| "truthy (Some (JObj kvs)) = True"

text \<open>\<open>new EngramError(m ?? "Unknown error")\<close>.\<close>

fun new_EngramError :: "json option \<Rightarrow> exn" where
  "new_EngramError None = EngramError ''Unknown error''"
| "new_EngramError (Some JNull) = EngramError ''Unknown error''"
| "new_EngramError (Some (JStr m)) = EngramError m"
| "new_EngramError (Some v) = EngramErrorOf v"

datatype event =
    SetTimeout nat real
  | Fetch Request
  | ReadJson
  | TimerFired nat
  | ClearTimeout nat

text \<open>
  The program state: the client object, the timers that are set and have neither fired
  nor been cleared, the next timer handle, and the trace of platform calls.
\<close>

record state =
  this :: EngramClient
  pending :: "nat list"
  next_timer :: nat
  log :: "event list"

definition setTimeout :: "real \<Rightarrow> state \<Rightarrow> nat \<times> state" where
  "setTimeout ms s =
     (next_timer s,
      s\<lparr> pending := next_timer s # pending s,
         next_timer := Suc (next_timer s),
         log := log s @ [SetTimeout (next_timer s) ms] \<rparr>)"

definition clearTimeout :: "nat \<Rightarrow> state \<Rightarrow> state" where
  "clearTimeout t s =
     s\<lparr> pending := removeAll t (pending s), log := log s @ [ClearTimeout t] \<rparr>"

text \<open>The timer runs its callback \<open>controller.abort()\<close>; a timer that has fired is no longer pending.\<close>

definition timer_fires :: "nat \<Rightarrow> state \<Rightarrow> state" where
  "timer_fires t s =
     s\<lparr> pending := removeAll t (pending s), log := log s @ [TimerFired t] \<rparr>"

definition record_event :: "event \<Rightarrow> state \<Rightarrow> state" where
  "record_event e s = s\<lparr> log := log s @ [e] \<rparr>"

text \<open>Decimal digits of a status code, as a template literal prints a non-negative integer.\<close>

definition digit_char :: "nat \<Rightarrow> char" where
  "digit_char d = ''0123456789'' ! d"

function string_of_nat :: "nat \<Rightarrow> string" where
  "string_of_nat n =
     (if n < 10 then [digit_char n] else string_of_nat (n div 10) @ [digit_char (n mod 10)])"
  by pat_completeness auto
termination
  by (relation "measure (\<lambda>n. n)") auto

section \<open>mcpCall\<close>

definition payload :: "string \<Rightarrow> (string \<times> json) list \<Rightarrow> json" where
  "payload method params =
     JObj [(''jsonrpc'', JStr ''2.0''),
           (''id'', JNum 1),
           (''method'', JStr ''tools/call''),
           (''params'', JObj [(''name'', JStr method), (''arguments'', JObj params)])]"

definition request :: "EngramClient \<Rightarrow> string \<Rightarrow> (string \<times> json) list \<Rightarrow> Request" where
  "request c method params =
     \<lparr> url = baseUrl c @ ''/v1/mcp'',
       http_method = ''POST'',
       req_headers = headers c,
       body = payload method params \<rparr>"

text \<open>
  The end of the \<open>try\<close> block, from the parsed body on:
  \<open>if (result.error) throw new EngramError(result.error.message ?? "Unknown error");
  return result.result\<close>.
\<close>

definition unwrap_envelope :: "json \<Rightarrow> outcome" where
  "unwrap_envelope result =
     (case get_prop (Some result) ''error'' of
        Inl e \<Rightarrow> Threw e
      | Inr err \<Rightarrow>
          if truthy err then
            (case get_prop err ''message'' of
               Inl e \<Rightarrow> Threw e
             | Inr m \<Rightarrow> Threw (new_EngramError m))
          else
            (case get_prop (Some result) ''result'' of
               Inl e \<Rightarrow> Threw e
             | Inr r \<Rightarrow> Returned r))"

text \<open>
  The \<open>try\<close> block. \<open>net\<close> is what the network does with this call; an abort is the
  call's own timer firing, while the request or the body read is in flight. The
  parameters are JSON values, on which \<open>JSON.stringify\<close> does not throw.
\<close>

definition try_block ::
  "string \<Rightarrow> (string \<times> json) list \<Rightarrow> nat \<Rightarrow> fetch_outcome \<Rightarrow> state \<Rightarrow> outcome \<times> state" where
  "try_block method params timer net s =
     (let s1 = record_event (Fetch (request (this s) method params)) s in
      case net of
        FetchAborted \<Rightarrow> (Threw AbortError, timer_fires timer s1)
      | FetchFailed \<Rightarrow> (Threw TypeError, s1)
      | FetchResolved resp \<Rightarrow>
          if \<not> resp_ok resp then
            (Threw (EngramError
               (''HTTP '' @ string_of_nat (resp_status resp) @ '': '' @ resp_statusText resp)), s1)
          else
            (let s2 = record_event ReadJson s1 in
             case resp_json resp of
               BodyAborted \<Rightarrow> (Threw AbortError, timer_fires timer s2)
             | BodyMalformed \<Rightarrow> (Threw SyntaxError, s2)
             | BodyParsed result \<Rightarrow> (unwrap_envelope result, s2)))"

text \<open>\<open>try { ... } finally { clearTimeout(timer) }\<close>: the outcome of the block is kept.\<close>

definition mcpCall ::
  "string \<Rightarrow> (string \<times> json) list \<Rightarrow> fetch_outcome \<Rightarrow> state \<Rightarrow> outcome \<times> state" where
  "mcpCall method params net s =
     (let (timer, s0) = setTimeout (timeout (this s)) s;
          (r, s') = try_block method params timer net s0
      in (r, clearTimeout timer s'))"

section \<open>Operations\<close>

definition create ::
  "string \<Rightarrow> CreateOptions opt \<Rightarrow> fetch_outcome \<Rightarrow> state \<Rightarrow> outcome \<times> state" where
  "create content options = mcpCall ''memory_create'' (create_params content options)"

definition get :: "real \<Rightarrow> fetch_outcome \<Rightarrow> state \<Rightarrow> outcome \<times> state" where
  "get memoryId = mcpCall ''memory_get'' (get_params memoryId)"

definition update :: "real \<Rightarrow> UpdateOptions \<Rightarrow> fetch_outcome \<Rightarrow> state \<Rightarrow> outcome \<times> state" where
  "update memoryId options = mcpCall ''memory_update'' (update_params memoryId options)"

definition delete :: "real \<Rightarrow> fetch_outcome \<Rightarrow> state \<Rightarrow> outcome \<times> state" where
  "delete memoryId = mcpCall ''memory_delete'' (delete_params memoryId)"

definition list_op :: "ListOptions opt \<Rightarrow> fetch_outcome \<Rightarrow> state \<Rightarrow> outcome \<times> state" where
  "list_op options = mcpCall ''memory_list'' (list_params options)"

definition search ::
  "string \<Rightarrow> SearchOptions opt \<Rightarrow> fetch_outcome \<Rightarrow> state \<Rightarrow> outcome \<times> state" where
  "search query options = mcpCall ''memory_search'' (search_params query options)"

definition related :: "real \<Rightarrow> fetch_outcome \<Rightarrow> state \<Rightarrow> outcome \<times> state" where
  "related memoryId = mcpCall ''memory_related'' (related_params memoryId)"

definition link ::
  "real \<Rightarrow> real \<Rightarrow> string opt \<Rightarrow> fetch_outcome \<Rightarrow> state \<Rightarrow> outcome \<times> state" where
  "link fromId toId edgeType = mcpCall ''memory_link'' (link_params fromId toId edgeType)"

definition stats :: "fetch_outcome \<Rightarrow> state \<Rightarrow> outcome \<times> state" where
  "stats = mcpCall ''memory_stats'' stats_params"

text \<open>
  A call of any of the nine operations with its arguments, the tool name and parameters
  it passes to \<open>mcpCall\<close>, and a session: calls made one after the other, each with what
  the network does to it.
\<close>

datatype call =
    Create string "CreateOptions opt"
  | Get real
  | Update real UpdateOptions
  | Delete real
  | List "ListOptions opt"
  | Search string "SearchOptions opt"
  | Related real
  | Link real real "string opt"
  | Stats

fun perform :: "call \<Rightarrow> fetch_outcome \<Rightarrow> state \<Rightarrow> outcome \<times> state" where
  "perform (Create content options) = create content options"
| "perform (Get memoryId) = get memoryId"
| "perform (Update memoryId options) = update memoryId options"
| "perform (Delete memoryId) = delete memoryId"
| "perform (List options) = list_op options"
| "perform (Search query options) = search query options"
| "perform (Related memoryId) = related memoryId"
| "perform (Link fromId toId edgeType) = link fromId toId edgeType"
| "perform Stats = stats"

fun tool_name :: "call \<Rightarrow> string" where
  "tool_name (Create content options) = ''memory_create''"
| "tool_name (Get memoryId) = ''memory_get''"
| "tool_name (Update memoryId options) = ''memory_update''"
| "tool_name (Delete memoryId) = ''memory_delete''"
| "tool_name (List options) = ''memory_list''"
| "tool_name (Search query options) = ''memory_search''"
| "tool_name (Related memoryId) = ''memory_related''"
| "tool_name (Link fromId toId edgeType) = ''memory_link''"
| "tool_name Stats = ''memory_stats''"

fun call_params :: "call \<Rightarrow> (string \<times> json) list" where
  "call_params (Create content options) = create_params content options"
| "call_params (Get memoryId) = get_params memoryId"
| "call_params (Update memoryId options) = update_params memoryId options"
| "call_params (Delete memoryId) = delete_params memoryId"
| "call_params (List options) = list_params options"
| "call_params (Search query options) = search_params query options"
| "call_params (Related memoryId) = related_params memoryId"
| "call_params (Link fromId toId edgeType) = link_params fromId toId edgeType"
| "call_params Stats = stats_params"

fun perform_all :: "(call \<times> fetch_outcome) list \<Rightarrow> state \<Rightarrow> state" where
  "perform_all [] s = s"
| "perform_all ((c, net) # cs) s = perform_all cs (snd (perform c net s))"

definition new_state :: "EngramConfig \<Rightarrow> state" where
  "new_state config = \<lparr> this = constructor config, pending = [], next_timer = 0, log = [] \<rparr>"

text \<open>The platform calls a call adds to the trace, and the requests among a trace.\<close>

definition new_events :: "state \<Rightarrow> state \<Rightarrow> event list" where
  "new_events s s' = drop (length (log s)) (log s')"

fun sent :: "event list \<Rightarrow> Request list" where
  "sent [] = []"
| "sent (Fetch r # es) = r # sent es"
| "sent (e # es) = sent es"

definition example_config :: EngramConfig where
  "example_config =
     \<lparr> cfg_baseUrl = ''https://x/'', cfg_apiKey = ''ek_1'', cfg_tenant = ''acme'',
       cfg_timeout = Undefined \<rparr>"

section \<open>Facts about parameter assembly\<close>

declare string_of_nat.simps [simp del]

lemma create_params_lookup:
  "map_of (create_params content (Given co)) ''memory_type'' =
     Some (JStr (case co_memoryType co of
                   Given m \<Rightarrow> m | Undefined \<Rightarrow> ''note'' | Null \<Rightarrow> ''note''))
   \<and> map_of (create_params content (Given co)) ''tags'' =
     (case co_tags co of Given t \<Rightarrow> Some (JStrs t) | Undefined \<Rightarrow> None | Null \<Rightarrow> None)
   \<and> map_of (create_params content (Given co)) ''workspace'' =
     (case co_workspace co of
        Given w \<Rightarrow> if w = [] then None else Some (JStr w)
      | Undefined \<Rightarrow> None
      | Null \<Rightarrow> None)
   \<and> map_of (create_params content (Given co)) ''metadata'' =
     (case co_metadata co of Given m \<Rightarrow> Some (JObj m) | Undefined \<Rightarrow> None | Null \<Rightarrow> None)
   \<and> map_of (create_params content (Given co)) ''importance'' =
     (case co_importance co of
        Given n \<Rightarrow> Some (JNum n) | Undefined \<Rightarrow> None | Null \<Rightarrow> Some JNull)"
  by (simp add: create_params_def assign_if_def split: opt.split)

lemma update_params_lookup:
  "map_of (update_params memoryId uo) ''content'' =
     (case uo_content uo of
        Given c \<Rightarrow> Some (JStr c) | Undefined \<Rightarrow> None | Null \<Rightarrow> Some JNull)
   \<and> map_of (update_params memoryId uo) ''tags'' =
     (case uo_tags uo of
        Given t \<Rightarrow> Some (JStrs t) | Undefined \<Rightarrow> None | Null \<Rightarrow> Some JNull)
   \<and> map_of (update_params memoryId uo) ''metadata'' =
     (case uo_metadata uo of
        Given m \<Rightarrow> Some (JObj m) | Undefined \<Rightarrow> None | Null \<Rightarrow> Some JNull)
   \<and> map_of (update_params memoryId uo) ''importance'' =
     (case uo_importance uo of
        Given n \<Rightarrow> Some (JNum n) | Undefined \<Rightarrow> None | Null \<Rightarrow> Some JNull)"
  by (simp add: update_params_def assign_if_def split: opt.split)

lemma list_params_lookup:
  "map_of (list_params (Given lo)) ''limit'' =
     Some (JNum (case lo_limit lo of Given n \<Rightarrow> n | Undefined \<Rightarrow> 50 | Null \<Rightarrow> 50))
   \<and> map_of (list_params (Given lo)) ''offset'' =
     Some (JNum (case lo_offset lo of Given n \<Rightarrow> n | Undefined \<Rightarrow> 0 | Null \<Rightarrow> 0))
   \<and> map_of (list_params (Given lo)) ''workspace'' =
     (case lo_workspace lo of
        Given w \<Rightarrow> if w = [] then None else Some (JStr w)
      | Undefined \<Rightarrow> None
      | Null \<Rightarrow> None)
   \<and> map_of (list_params (Given lo)) ''memory_type'' =
     (case lo_memoryType lo of
        Given m \<Rightarrow> if m = [] then None else Some (JStr m)
      | Undefined \<Rightarrow> None
      | Null \<Rightarrow> None)
   \<and> map_of (list_params (Given lo)) ''tags'' =
     (case lo_tags lo of Given t \<Rightarrow> Some (JStrs t) | Undefined \<Rightarrow> None | Null \<Rightarrow> None)"
  by (simp add: list_params_def assign_if_def split: opt.split)

lemma search_params_lookup:
  "map_of (search_params query (Given so)) ''limit'' =
     Some (JNum (case so_limit so of Given n \<Rightarrow> n | Undefined \<Rightarrow> 10 | Null \<Rightarrow> 10))
   \<and> map_of (search_params query (Given so)) ''workspace'' =
     (case so_workspace so of
        Given w \<Rightarrow> if w = [] then None else Some (JStr w)
      | Undefined \<Rightarrow> None
      | Null \<Rightarrow> None)"
  by (simp add: search_params_def assign_if_def split: opt.split)

lemma no_options:
  "create_params content Undefined =
     [(''content'', JStr content), (''memory_type'', JStr ''note'')]
   \<and> list_params Undefined = [(''limit'', JNum 50), (''offset'', JNum 0)]
   \<and> search_params query Undefined = [(''query'', JStr query), (''limit'', JNum 10)]"
  by (simp add: create_params_def list_params_def search_params_def assign_if_def)

section \<open>Facts about mcpCall\<close>

lemmas runtime_defs =
  mcpCall_def try_block_def setTimeout_def clearTimeout_def timer_fires_def record_event_def

lemma perform_mcpCall: "perform c = mcpCall (tool_name c) (call_params c)"
  by (cases c)
     (simp_all add: create_def get_def update_def delete_def list_op_def search_def
        related_def link_def stats_def)

lemma mcpCall_this: "this (snd (mcpCall m p net s)) = this s"
  by (simp add: runtime_defs Let_def split: fetch_outcome.split body_outcome.split)

lemma mcpCall_pending:
  "pending (snd (mcpCall m p net s)) = removeAll (next_timer s) (pending s)"
  by (simp add: runtime_defs Let_def split: fetch_outcome.split body_outcome.split)

lemma mcpCall_log:
  "\<exists>mid. log (snd (mcpCall m p net s)) =
      log s @ [SetTimeout (next_timer s) (timeout (this s)), Fetch (request (this s) m p)]
        @ mid @ [ClearTimeout (next_timer s)]
      \<and> sent mid = []"
  by (simp add: runtime_defs Let_def split: fetch_outcome.split body_outcome.split)

lemma sent_append: "sent (xs @ ys) = sent xs @ sent ys"
  by (induction xs rule: sent.induct) simp_all

lemma mcpCall_new_events:
  "\<exists>mid. new_events s (snd (mcpCall m p net s)) =
      SetTimeout (next_timer s) (timeout (this s)) # Fetch (request (this s) m p)
        # mid @ [ClearTimeout (next_timer s)]
      \<and> sent mid = []"
  using mcpCall_log[of m p net s] by (auto simp: new_events_def)

lemma mcpCall_sent_new: "sent (new_events s (snd (mcpCall m p net s))) = [request (this s) m p]"
  using mcpCall_new_events[of s m p net] by (auto simp: sent_append)

lemma mcpCall_sent:
  "sent (log (snd (mcpCall m p net s))) = sent (log s) @ [request (this s) m p]"
  using mcpCall_log[of m p net s] by (auto simp: sent_append)

lemma mcpCall_not_ok:
  "\<not> resp_ok resp \<Longrightarrow>
   mcpCall m p (FetchResolved resp) s =
     (Threw (EngramError
        (''HTTP '' @ string_of_nat (resp_status resp) @ '': '' @ resp_statusText resp)),
      s\<lparr> pending := removeAll (next_timer s) (pending s),
         next_timer := Suc (next_timer s),
         log := log s @ [SetTimeout (next_timer s) (timeout (this s)),
                         Fetch (request (this s) m p),
                         ClearTimeout (next_timer s)] \<rparr>)"
  by (simp add: runtime_defs Let_def)

lemma mcpCall_parsed:
  "resp_ok resp \<Longrightarrow> resp_json resp = BodyParsed v \<Longrightarrow>
   fst (mcpCall m p (FetchResolved resp) s) = unwrap_envelope v"
  by (simp add: runtime_defs Let_def)

lemma unwrap_envelope_table:
  "unwrap_envelope v =
     (case v of
        JNull \<Rightarrow> Threw TypeError
      | JBool b \<Rightarrow> Returned None
      | JNum n \<Rightarrow> Returned None
      | JStr t \<Rightarrow> Returned None
      | JArr xs \<Rightarrow> Returned None
      | JObj kvs \<Rightarrow>
          (case map_of (rev kvs) ''error'' of
             None \<Rightarrow> Returned (map_of (rev kvs) ''result'')
           | Some JNull \<Rightarrow> Returned (map_of (rev kvs) ''result'')
           | Some (JBool b) \<Rightarrow>
               if b then Threw (EngramError ''Unknown error'')
               else Returned (map_of (rev kvs) ''result'')
           | Some (JNum n) \<Rightarrow>
               if n = 0 then Returned (map_of (rev kvs) ''result'')
               else Threw (EngramError ''Unknown error'')
           | Some (JStr t) \<Rightarrow>
               if t = [] then Returned (map_of (rev kvs) ''result'')
               else Threw (EngramError ''Unknown error'')
           | Some (JArr xs) \<Rightarrow> Threw (EngramError ''Unknown error'')
           | Some (JObj e) \<Rightarrow>
               (case map_of (rev e) ''message'' of
                  None \<Rightarrow> Threw (EngramError ''Unknown error'')
                | Some JNull \<Rightarrow> Threw (EngramError ''Unknown error'')
                | Some (JStr msg) \<Rightarrow> Threw (EngramError msg)
                | Some (JBool b) \<Rightarrow> Threw (EngramErrorOf (JBool b))
                | Some (JNum n) \<Rightarrow> Threw (EngramErrorOf (JNum n))
                | Some (JArr xs) \<Rightarrow> Threw (EngramErrorOf (JArr xs))
                | Some (JObj kvs') \<Rightarrow> Threw (EngramErrorOf (JObj kvs')))))"
  by (simp add: unwrap_envelope_def split: json.split option.split)

lemma perform_all_this: "this (perform_all cs s) = this s"
  by (induction cs s rule: perform_all.induct) (simp_all add: perform_mcpCall mcpCall_this)

lemma perform_all_pending: "pending s = [] \<Longrightarrow> pending (perform_all cs s) = []"
  by (induction cs s rule: perform_all.induct) (simp_all add: perform_mcpCall mcpCall_pending)

lemma perform_all_urls:
  "map url (sent (log (perform_all cs s))) =
     map url (sent (log s)) @ replicate (length cs) (baseUrl (this s) @ ''/v1/mcp'')"
proof (induction cs s rule: perform_all.induct)
  case (1 s)
  show ?case by simp
next
  case (2 c net cs s)
  have "replicate (length cs) (baseUrl (this s) @ ''/v1/mcp'') @ [baseUrl (this s) @ ''/v1/mcp'']
      = (baseUrl (this s) @ ''/v1/mcp'') # replicate (length cs) (baseUrl (this s) @ ''/v1/mcp'')"
    by (simp add: replicate_append_same)
  with 2 show ?case
    by (simp add: perform_mcpCall mcpCall_sent mcpCall_this request_def)
qed

lemma strip_trailing_slash_snoc: "strip_trailing_slash (u @ ''/'') = u"
  by (simp add: strip_trailing_slash_def)

lemma strip_trailing_slash_cases:
  "s = strip_trailing_slash s \<or> s = strip_trailing_slash s @ ''/''"
proof (cases "s \<noteq> [] \<and> last s = CHR ''/''")
  case True
  with append_butlast_last_id[of s] have "butlast s @ ''/'' = s" by simp
  with True show ?thesis by (simp add: strip_trailing_slash_def)
next
  case False
  then show ?thesis by (auto simp: strip_trailing_slash_def)
qed

text \<open>The decimal digits of a number.\<close>

lemma digit_char_cases:
  assumes "d < 10"
  shows "of_char (digit_char d) = 48 + d \<and> digit_char d \<in> set ''0123456789''
     \<and> (digit_char d = CHR ''0'') = (d = 0)"
proof -
  from assms have "d = 0 \<or> d = 1 \<or> d = 2 \<or> d = 3 \<or> d = 4 \<or> d = 5 \<or> d = 6 \<or> d = 7
      \<or> d = 8 \<or> d = 9"
    by arith
  then show ?thesis
    by (elim disjE) (simp_all add: digit_char_def)
qed

lemma string_of_nat_nonempty: "string_of_nat n \<noteq> []"
  by (subst string_of_nat.simps) simp

lemma string_of_nat_digits: "set (string_of_nat n) \<subseteq> set ''0123456789''"
proof (induction n rule: string_of_nat.induct)
  case (1 n)
  show ?case
  proof (cases "n < 10")
    case True
    with digit_char_cases[of n] show ?thesis
      by (subst string_of_nat.simps) auto
  next
    case False
    have "n mod 10 < 10" by simp
    with digit_char_cases[of "n mod 10"] have "digit_char (n mod 10) \<in> set ''0123456789''"
      by blast
    with False 1 show ?thesis
      by (subst string_of_nat.simps) auto
  qed
qed

lemma string_of_nat_value:
  "foldl (\<lambda>a ch. 10 * a + (of_char ch - 48)) 0 (string_of_nat n) = n"
proof (induction n rule: string_of_nat.induct)
  case (1 n)
  show ?case
  proof (cases "n < 10")
    case True
    with digit_char_cases[of n] show ?thesis
      by (subst string_of_nat.simps) simp
  next
    case False
    have "n mod 10 < 10" by simp
    with digit_char_cases[of "n mod 10"] have "of_char (digit_char (n mod 10)) = 48 + n mod 10"
      by blast
    with False 1 show ?thesis
      by (subst string_of_nat.simps) simp
  qed
qed

lemma string_of_nat_hd: "(hd (string_of_nat n) = CHR ''0'') = (n = 0)"
proof (induction n rule: string_of_nat.induct)
  case (1 n)
  show ?case
  proof (cases "n < 10")
    case True
    with digit_char_cases[of n] show ?thesis
      by (subst string_of_nat.simps) simp
  next
    case False
    then have "n div 10 \<noteq> 0" by simp
    with False 1 show ?thesis
      by (subst string_of_nat.simps) (simp add: string_of_nat_nonempty)
  qed
qed

section \<open>Claims\<close>

text \<open>
  C1, as amended. For create, update, list and search, every optional key of the
  assembled parameters is determined by its option alone. An option left \<open>undefined\<close>
  adds no key, except the defaulted ones (\<open>memory_type\<close> of create, \<open>limit\<close> and \<open>offset\<close>
  of list, \<open>limit\<close> of search), which are always present and carry the default when the
  option is \<open>undefined\<close> or \<open>null\<close>. An option given a value appears under its wire name
  with that value, except that an empty string given for \<open>workspace\<close> (create, list,
  search) or for \<open>memoryType\<close> (list) adds no key. A \<open>null\<close> option adds no key where the
  guard is truthiness and is sent as \<open>null\<close> where the guard is \<open>!== undefined\<close>.
\<close>

theorem optional_params_assembled:
  "(map_of (create_params content (Given co)) ''memory_type'' =
      Some (JStr (case co_memoryType co of
                    Given m \<Rightarrow> m | Undefined \<Rightarrow> ''note'' | Null \<Rightarrow> ''note''))
    \<and> map_of (create_params content (Given co)) ''tags'' =
      (case co_tags co of Given t \<Rightarrow> Some (JStrs t) | Undefined \<Rightarrow> None | Null \<Rightarrow> None)
    \<and> map_of (create_params content (Given co)) ''workspace'' =
      (case co_workspace co of
         Given w \<Rightarrow> if w = [] then None else Some (JStr w)
       | Undefined \<Rightarrow> None
       | Null \<Rightarrow> None)
    \<and> map_of (create_params content (Given co)) ''metadata'' =
      (case co_metadata co of Given m \<Rightarrow> Some (JObj m) | Undefined \<Rightarrow> None | Null \<Rightarrow> None)
    \<and> map_of (create_params content (Given co)) ''importance'' =
      (case co_importance co of
         Given n \<Rightarrow> Some (JNum n) | Undefined \<Rightarrow> None | Null \<Rightarrow> Some JNull))
   \<and> (map_of (update_params memoryId uo) ''content'' =
      (case uo_content uo of
         Given c \<Rightarrow> Some (JStr c) | Undefined \<Rightarrow> None | Null \<Rightarrow> Some JNull)
    \<and> map_of (update_params memoryId uo) ''tags'' =
      (case uo_tags uo of
         Given t \<Rightarrow> Some (JStrs t) | Undefined \<Rightarrow> None | Null \<Rightarrow> Some JNull)
    \<and> map_of (update_params memoryId uo) ''metadata'' =
      (case uo_metadata uo of
         Given m \<Rightarrow> Some (JObj m) | Undefined \<Rightarrow> None | Null \<Rightarrow> Some JNull)
    \<and> map_of (update_params memoryId uo) ''importance'' =
      (case uo_importance uo of
         Given n \<Rightarrow> Some (JNum n) | Undefined \<Rightarrow> None | Null \<Rightarrow> Some JNull))
   \<and> (map_of (list_params (Given lo)) ''limit'' =
      Some (JNum (case lo_limit lo of Given n \<Rightarrow> n | Undefined \<Rightarrow> 50 | Null \<Rightarrow> 50))
    \<and> map_of (list_params (Given lo)) ''offset'' =
      Some (JNum (case lo_offset lo of Given n \<Rightarrow> n | Undefined \<Rightarrow> 0 | Null \<Rightarrow> 0))
    \<and> map_of (list_params (Given lo)) ''workspace'' =
      (case lo_workspace lo of
         Given w \<Rightarrow> if w = [] then None else Some (JStr w)
       | Undefined \<Rightarrow> None
       | Null \<Rightarrow> None)
    \<and> map_of (list_params (Given lo)) ''memory_type'' =
      (case lo_memoryType lo of
         Given m \<Rightarrow> if m = [] then None else Some (JStr m)
       | Undefined \<Rightarrow> None
       | Null \<Rightarrow> None)
    \<and> map_of (list_params (Given lo)) ''tags'' =
      (case lo_tags lo of Given t \<Rightarrow> Some (JStrs t) | Undefined \<Rightarrow> None | Null \<Rightarrow> None))
   \<and> (map_of (search_params query (Given so)) ''limit'' =
      Some (JNum (case so_limit so of Given n \<Rightarrow> n | Undefined \<Rightarrow> 10 | Null \<Rightarrow> 10))
    \<and> map_of (search_params query (Given so)) ''workspace'' =
      (case so_workspace so of
         Given w \<Rightarrow> if w = [] then None else Some (JStr w)
       | Undefined \<Rightarrow> None
       | Null \<Rightarrow> None))
   \<and> create_params content Undefined =
        [(''content'', JStr content), (''memory_type'', JStr ''note'')]
   \<and> list_params Undefined = [(''limit'', JNum 50), (''offset'', JNum 0)]
   \<and> search_params query Undefined = [(''query'', JStr query), (''limit'', JNum 10)]"
  using create_params_lookup[of content co] update_params_lookup[of memoryId uo]
    list_params_lookup[of lo] search_params_lookup[of query so] no_options[of content query]
  by blast

text \<open>
  C1 as stated fails: \<open>create("x", {workspace: ""})\<close> supplies \<open>workspace\<close>, and the
  parameters have no \<open>workspace\<close> key; \<open>create("x")\<close> supplies no \<open>memoryType\<close>, and the
  parameters have the key \<open>memory_type\<close>.
\<close>

theorem empty_workspace_omitted:
  "map_of (create_params ''x''
      (Given \<lparr> co_memoryType = Undefined, co_tags = Undefined, co_workspace = Given '''',
               co_metadata = Undefined, co_importance = Undefined \<rparr>)) ''workspace'' = None
   \<and> map_of (create_params ''x'' Undefined) ''memory_type'' = Some (JStr ''note'')"
  by (simp add: create_params_def assign_if_def)

text \<open>
  C2, as amended. For every response with a status from 200 to 299 whose body parses,
  the outcome of every operation is decided by the body alone. For a body that is an
  object: when its \<open>error\<close> is an object, the operation rejects with an \<open>EngramError\<close>
  whose message is the error's \<open>message\<close> when that is a string and \<open>Unknown error\<close> when
  it is absent or \<open>null\<close> (for any other \<open>message\<close> value, the platform's string
  conversion of it); when \<open>error\<close> is absent or \<open>null\<close>, the operation returns the body's
  \<open>result\<close>, which is \<open>undefined\<close> when the body has none. Any other \<open>error\<close> goes by
  truthiness: \<open>false\<close>, \<open>0\<close> and the empty string are treated as absent; \<open>true\<close>, other
  numbers, other strings and arrays reject with \<open>Unknown error\<close>. A body that is \<open>null\<close>
  raises a TypeError, and a body that is a boolean, a number, a string or an array
  returns \<open>undefined\<close>.
\<close>

theorem envelope_unwrapped:
  assumes "200 \<le> resp_status resp" and "resp_status resp \<le> 299"
    and "resp_json resp = BodyParsed v"
  shows "fst (perform c (FetchResolved resp) s) =
     (case v of
        JNull \<Rightarrow> Threw TypeError
      | JBool b \<Rightarrow> Returned None
      | JNum n \<Rightarrow> Returned None
      | JStr t \<Rightarrow> Returned None
      | JArr xs \<Rightarrow> Returned None
      | JObj kvs \<Rightarrow>
          (case map_of (rev kvs) ''error'' of
             None \<Rightarrow> Returned (map_of (rev kvs) ''result'')
           | Some JNull \<Rightarrow> Returned (map_of (rev kvs) ''result'')
           | Some (JBool b) \<Rightarrow>
               if b then Threw (EngramError ''Unknown error'')
               else Returned (map_of (rev kvs) ''result'')
           | Some (JNum n) \<Rightarrow>
               if n = 0 then Returned (map_of (rev kvs) ''result'')
               else Threw (EngramError ''Unknown error'')
           | Some (JStr t) \<Rightarrow>
               if t = [] then Returned (map_of (rev kvs) ''result'')
               else Threw (EngramError ''Unknown error'')
           | Some (JArr xs) \<Rightarrow> Threw (EngramError ''Unknown error'')
           | Some (JObj e) \<Rightarrow>
               (case map_of (rev e) ''message'' of
                  None \<Rightarrow> Threw (EngramError ''Unknown error'')
                | Some JNull \<Rightarrow> Threw (EngramError ''Unknown error'')
                | Some (JStr msg) \<Rightarrow> Threw (EngramError msg)
                | Some (JBool b) \<Rightarrow> Threw (EngramErrorOf (JBool b))
                | Some (JNum n) \<Rightarrow> Threw (EngramErrorOf (JNum n))
                | Some (JArr xs) \<Rightarrow> Threw (EngramErrorOf (JArr xs))
                | Some (JObj kvs') \<Rightarrow> Threw (EngramErrorOf (JObj kvs')))))"
proof -
  from assms have "resp_ok resp"
    by (simp add: resp_ok_def)
  with assms(3) have "fst (perform c (FetchResolved resp) s) = unwrap_envelope v"
    by (simp add: perform_mcpCall mcpCall_parsed)
  then show ?thesis
    by (simp only: unwrap_envelope_table)
qed

text \<open>
  \<open>get(999)\<close> answered by 200 with \<open>{"error":{"message":"not found"}}\<close> rejects with
  exactly \<open>not found\<close>; answered with \<open>{"error":{}}\<close> it rejects with \<open>Unknown error\<close>;
  answered with \<open>{"result":{"id":999}}\<close> it returns \<open>{"id":999}\<close>; \<open>delete(7)\<close> answered
  by 204 with \<open>{}\<close> returns \<open>undefined\<close>.
\<close>

theorem envelope_unwrapped_witness:
  "fst (perform (Get 999)
      (FetchResolved \<lparr> resp_status = 200, resp_statusText = ''OK'',
         resp_json = BodyParsed (JObj [(''error'', JObj [(''message'', JStr ''not found'')])]) \<rparr>)
      (new_state example_config)) = Threw (EngramError ''not found'')
   \<and> fst (perform (Get 999)
      (FetchResolved \<lparr> resp_status = 200, resp_statusText = ''OK'',
         resp_json = BodyParsed (JObj [(''error'', JObj [])]) \<rparr>)
      (new_state example_config)) = Threw (EngramError ''Unknown error'')
   \<and> fst (perform (Get 999)
      (FetchResolved \<lparr> resp_status = 200, resp_statusText = ''OK'',
         resp_json = BodyParsed (JObj [(''result'', JObj [(''id'', JNum 999)])]) \<rparr>)
      (new_state example_config)) = Returned (Some (JObj [(''id'', JNum 999)]))
   \<and> fst (perform (Delete 7)
      (FetchResolved \<lparr> resp_status = 204, resp_statusText = ''No Content'',
         resp_json = BodyParsed (JObj []) \<rparr>)
      (new_state example_config)) = Returned None"
  using
    envelope_unwrapped[of "\<lparr> resp_status = 200, resp_statusText = ''OK'',
         resp_json = BodyParsed (JObj [(''error'', JObj [(''message'', JStr ''not found'')])]) \<rparr>"
         _ "Get 999" "new_state example_config"]
    envelope_unwrapped[of "\<lparr> resp_status = 200, resp_statusText = ''OK'',
         resp_json = BodyParsed (JObj [(''error'', JObj [])]) \<rparr>"
         _ "Get 999" "new_state example_config"]
    envelope_unwrapped[of "\<lparr> resp_status = 200, resp_statusText = ''OK'',
         resp_json = BodyParsed (JObj [(''result'', JObj [(''id'', JNum 999)])]) \<rparr>"
         _ "Get 999" "new_state example_config"]
    envelope_unwrapped[of "\<lparr> resp_status = 204, resp_statusText = ''No Content'',
         resp_json = BodyParsed (JObj []) \<rparr>" _ "Delete 7" "new_state example_config"]
  by simp

text \<open>
  C2 as stated fails. A body \<open>{"error":null,"result":5}\<close> has its \<open>error\<close> field present,
  and \<open>get(999)\<close> returns 5 instead of rejecting with \<open>Unknown error\<close>. A body \<open>null\<close> has
  no \<open>error\<close>, and \<open>get(999)\<close> raises a TypeError instead of returning.
\<close>

theorem null_error_returns_result:
  "fst (get 999
      (FetchResolved \<lparr> resp_status = 200, resp_statusText = ''OK'',
         resp_json = BodyParsed (JObj [(''error'', JNull), (''result'', JNum 5)]) \<rparr>)
      (new_state example_config)) = Returned (Some (JNum 5))
   \<and> fst (get 999
      (FetchResolved \<lparr> resp_status = 200, resp_statusText = ''OK'',
         resp_json = BodyParsed (JObj [(''error'', JNull), (''result'', JNum 5)]) \<rparr>)
      (new_state example_config)) \<noteq> Threw (EngramError ''Unknown error'')
   \<and> fst (get 999
      (FetchResolved \<lparr> resp_status = 200, resp_statusText = ''OK'',
         resp_json = BodyParsed JNull \<rparr>)
      (new_state example_config)) = Threw TypeError"
  by (simp add: get_def runtime_defs resp_ok_def Let_def unwrap_envelope_def)

text \<open>
  C3. For every response whose status is outside 200 to 299, every operation rejects
  with one \<open>EngramError\<close> whose message is \<open>HTTP\<close>, a space, the status, a colon, a space
  and the status text, so it contains both. The status is printed in decimal: only
  digits, no leading zero, and read back as a decimal number they give the status. The
  call sets its timer, sends its request and clears the timer, and never reads the body.
\<close>

theorem transport_error_rejects:
  assumes "resp_status resp < 200 \<or> 299 < resp_status resp"
  shows "fst (perform c (FetchResolved resp) s) =
       Threw (EngramError
         (''HTTP '' @ string_of_nat (resp_status resp) @ '': '' @ resp_statusText resp))
     \<and> set (string_of_nat (resp_status resp)) \<subseteq> set ''0123456789''
     \<and> foldl (\<lambda>a ch. 10 * a + (of_char ch - 48)) 0 (string_of_nat (resp_status resp))
         = resp_status resp
     \<and> string_of_nat (resp_status resp) \<noteq> []
     \<and> (hd (string_of_nat (resp_status resp)) = CHR ''0'') = (resp_status resp = 0)
     \<and> sublist (string_of_nat (resp_status resp))
         (''HTTP '' @ string_of_nat (resp_status resp) @ '': '' @ resp_statusText resp)
     \<and> sublist (resp_statusText resp)
         (''HTTP '' @ string_of_nat (resp_status resp) @ '': '' @ resp_statusText resp)
     \<and> new_events s (snd (perform c (FetchResolved resp) s)) =
         [SetTimeout (next_timer s) (timeout (this s)),
          Fetch (request (this s) (tool_name c) (call_params c)),
          ClearTimeout (next_timer s)]
     \<and> ReadJson \<notin> set (new_events s (snd (perform c (FetchResolved resp) s)))"
proof -
  from assms have nok: "\<not> resp_ok resp"
    by (auto simp: resp_ok_def)
  have "sublist (string_of_nat (resp_status resp))
      (''HTTP '' @ string_of_nat (resp_status resp) @ '': '' @ resp_statusText resp)"
    by (rule sublist_appendI)
  moreover have "sublist (resp_statusText resp)
      ((''HTTP '' @ string_of_nat (resp_status resp) @ '': '') @ resp_statusText resp)"
    by (rule sublist_append_leftI)
  moreover note string_of_nat_digits[of "resp_status resp"]
    string_of_nat_value[of "resp_status resp"]
    string_of_nat_hd[of "resp_status resp"]
  ultimately show ?thesis
    by (simp add: perform_mcpCall mcpCall_not_ok[OF nok] new_events_def string_of_nat_nonempty)
qed

text \<open>
  \<open>get(999)\<close> answered by 404 Not Found rejects with the message \<open>HTTP 404: Not Found\<close>,
  which contains \<open>404\<close>; \<open>stats()\<close> answered by 500 Internal Server Error rejects with
  \<open>HTTP 500: Internal Server Error\<close>; \<open>list()\<close> answered by 301 rejects with
  \<open>HTTP 301: Moved Permanently\<close>. None of them reads the body.
\<close>

theorem transport_error_rejects_witness:
  "fst (perform (Get 999)
      (FetchResolved \<lparr> resp_status = 404, resp_statusText = ''Not Found'',
                        resp_json = BodyMalformed \<rparr>)
      (new_state example_config)) = Threw (EngramError ''HTTP 404: Not Found'')
   \<and> sublist ''404'' ''HTTP 404: Not Found''
   \<and> fst (perform Stats
      (FetchResolved \<lparr> resp_status = 500, resp_statusText = ''Internal Server Error'',
                        resp_json = BodyParsed (JObj [(''result'', JNum 1)]) \<rparr>)
      (new_state example_config)) = Threw (EngramError ''HTTP 500: Internal Server Error'')
   \<and> sublist ''500'' ''HTTP 500: Internal Server Error''
   \<and> fst (perform (List Undefined)
      (FetchResolved \<lparr> resp_status = 301, resp_statusText = ''Moved Permanently'',
                        resp_json = BodyMalformed \<rparr>)
      (new_state example_config)) = Threw (EngramError ''HTTP 301: Moved Permanently'')
   \<and> ReadJson \<notin> set (new_events (new_state example_config)
        (snd (perform Stats
          (FetchResolved \<lparr> resp_status = 500, resp_statusText = ''Internal Server Error'',
                            resp_json = BodyParsed (JObj [(''result'', JNum 1)]) \<rparr>)
          (new_state example_config))))"
proof -
  have d404: "string_of_nat 404 = ''404''"
    by (simp add: string_of_nat.simps[of 404] string_of_nat.simps[of 40]
          string_of_nat.simps[of 4] digit_char_def)
  have d500: "string_of_nat 500 = ''500''"
    by (simp add: string_of_nat.simps[of 500] string_of_nat.simps[of 50]
          string_of_nat.simps[of 5] digit_char_def)
  have d301: "string_of_nat 301 = ''301''"
    by (simp add: string_of_nat.simps[of 301] string_of_nat.simps[of 30]
          string_of_nat.simps[of 3] digit_char_def)
  show ?thesis
    using
      transport_error_rejects[of "\<lparr> resp_status = 404, resp_statusText = ''Not Found'',
        resp_json = BodyMalformed \<rparr>" "Get 999" "new_state example_config"]
      transport_error_rejects[of "\<lparr> resp_status = 500,
        resp_statusText = ''Internal Server Error'',
        resp_json = BodyParsed (JObj [(''result'', JNum 1)]) \<rparr>" Stats
        "new_state example_config"]
      transport_error_rejects[of "\<lparr> resp_status = 301,
        resp_statusText = ''Moved Permanently'', resp_json = BodyMalformed \<rparr>"
        "List Undefined" "new_state example_config"]
    by (simp add: d404 d500 d301)
qed

text \<open>
  C4. \<open>create("x")\<close> with no options sends the parameters \<open>content\<close> and
  \<open>memory_type = "note"\<close>, and \<open>list()\<close> with no options sends exactly
  \<open>{limit: 50, offset: 0}\<close>.
\<close>

theorem default_substitution:
  "map_of (create_params ''x'' Undefined) ''memory_type'' = Some (JStr ''note'')
   \<and> create_params ''x'' Undefined = [(''content'', JStr ''x''), (''memory_type'', JStr ''note'')]
   \<and> list_params Undefined = [(''limit'', JNum 50), (''offset'', JNum 0)]
   \<and> map body (sent (new_events s (snd (create ''x'' Undefined net s)))) =
       [payload ''memory_create'' [(''content'', JStr ''x''), (''memory_type'', JStr ''note'')]]
   \<and> map body (sent (new_events s (snd (list_op Undefined net s)))) =
       [payload ''memory_list'' [(''limit'', JNum 50), (''offset'', JNum 0)]]"
  using no_options[of "''x''"]
  by (simp add: create_def list_op_def mcpCall_sent_new request_def)

text \<open>
  C5. \<open>link(a, b)\<close> without an edge type sends \<open>edge_type = "related_to"\<close>, and
  \<open>link(a, b, "caused_by")\<close> sends \<open>edge_type = "caused_by"\<close>; in both cases \<open>from_id\<close>
  and \<open>to_id\<close> are the given ids, in particular for \<open>link(1, 2)\<close>.
\<close>

theorem link_edge_type:
  "link_params 1 2 Undefined =
     [(''from_id'', JNum 1), (''to_id'', JNum 2), (''edge_type'', JStr ''related_to'')]
   \<and> link_params 1 2 (Given ''caused_by'') =
     [(''from_id'', JNum 1), (''to_id'', JNum 2), (''edge_type'', JStr ''caused_by'')]
   \<and> link_params fromId toId Undefined =
     [(''from_id'', JNum fromId), (''to_id'', JNum toId), (''edge_type'', JStr ''related_to'')]
   \<and> link_params fromId toId (Given edgeType) =
     [(''from_id'', JNum fromId), (''to_id'', JNum toId), (''edge_type'', JStr edgeType)]
   \<and> map body (sent (new_events s (snd (link fromId toId Undefined net s)))) =
     [payload ''memory_link''
        [(''from_id'', JNum fromId), (''to_id'', JNum toId),
         (''edge_type'', JStr ''related_to'')]]"
  by (simp add: link_params_def assign_if_def link_def mcpCall_sent_new request_def)

text \<open>
  C6. A client constructed with the endpoint \<open>https://x/\<close> and one constructed with
  \<open>https://x\<close> send every request of every later call to \<open>https://x/v1/mcp\<close>.
  Construction removes one trailing slash when there is one and nothing otherwise.
\<close>

theorem trailing_slash_normalised:
  "map url (sent (log (perform_all cs (new_state (config\<lparr> cfg_baseUrl := ''https://x/'' \<rparr>)))))
     = replicate (length cs) ''https://x/v1/mcp''
   \<and> map url (sent (log (perform_all cs (new_state (config\<lparr> cfg_baseUrl := ''https://x'' \<rparr>)))))
     = replicate (length cs) ''https://x/v1/mcp''
   \<and> baseUrl (constructor (config\<lparr> cfg_baseUrl := u @ ''/'' \<rparr>)) = u
   \<and> baseUrl (constructor (config\<lparr> cfg_baseUrl := ''https://x//'' \<rparr>)) = ''https://x/''
   \<and> (cfg_baseUrl config = baseUrl (constructor config)
        \<or> cfg_baseUrl config = baseUrl (constructor config) @ ''/'')"
proof -
  have "baseUrl (constructor (config\<lparr> cfg_baseUrl := u @ ''/'' \<rparr>)) = u"
    by (simp add: constructor_def strip_trailing_slash_snoc)
  moreover have "cfg_baseUrl config = baseUrl (constructor config)
        \<or> cfg_baseUrl config = baseUrl (constructor config) @ ''/''"
    using strip_trailing_slash_cases[of "cfg_baseUrl config"] by (simp add: constructor_def)
  ultimately show ?thesis
    by (simp add: perform_all_urls new_state_def constructor_def strip_trailing_slash_def)
qed

text \<open>
  C7. Whatever the network does to a call (the request is aborted by the timer, fails,
  is answered with a status outside 200 to 299, or is answered and the body read is
  aborted, fails to parse, carries an error or carries a result), the call first sets
  its timer and ends by clearing that same timer, which is then no longer pending.
  After any sequence of calls on a new client no timer is pending.
\<close>

theorem timer_always_cleared:
  "(\<exists>mid. new_events s (snd (perform c net s)) =
       SetTimeout (next_timer s) (timeout (this s)) # mid @ [ClearTimeout (next_timer s)])
   \<and> last (log (snd (perform c net s))) = ClearTimeout (next_timer s)
   \<and> next_timer s \<notin> set (pending (snd (perform c net s)))
   \<and> pending (snd (perform c net s)) = removeAll (next_timer s) (pending s)
   \<and> pending (perform_all cs (new_state config)) = []"
proof -
  obtain mid where ev: "new_events s (snd (mcpCall (tool_name c) (call_params c) net s)) =
      SetTimeout (next_timer s) (timeout (this s))
        # Fetch (request (this s) (tool_name c) (call_params c))
        # mid @ [ClearTimeout (next_timer s)]"
    using mcpCall_new_events[of s "tool_name c" "call_params c" net] by blast
  then have "\<exists>mid. new_events s (snd (perform c net s)) =
       SetTimeout (next_timer s) (timeout (this s)) # mid @ [ClearTimeout (next_timer s)]"
    by (simp add: perform_mcpCall exI[of _ "Fetch (request (this s) (tool_name c) (call_params c)) # mid"])
  moreover have "last (log (snd (perform c net s))) = ClearTimeout (next_timer s)"
    using mcpCall_log[of "tool_name c" "call_params c" net s] by (auto simp: perform_mcpCall)
  moreover have "pending (perform_all cs (new_state config)) = []"
    by (rule perform_all_pending) (simp add: new_state_def)
  ultimately show ?thesis
    by (simp add: perform_mcpCall mcpCall_pending)
qed

text \<open>
  C8. Every call of every operation, made on a client constructed from \<open>config\<close> after
  any earlier calls, sends exactly one request: a POST to the endpoint's \<open>/v1/mcp\<close> with
  the headers \<open>Authorization: Bearer\<close> and the API key, \<open>X-Tenant-Slug\<close> with the tenant,
  and \<open>Content-Type: application/json\<close>, whose body is the JSON-RPC envelope with
  \<open>jsonrpc = "2.0"\<close>, \<open>id = 1\<close>, \<open>method = "tools/call"\<close> and \<open>params\<close> holding the
  operation's tool name and its assembled parameters.
\<close>

theorem request_envelope_and_headers:
  "sent (new_events (perform_all cs (new_state config))
          (snd (perform c net (perform_all cs (new_state config))))) =
     [\<lparr> url = strip_trailing_slash (cfg_baseUrl config) @ ''/v1/mcp'',
        http_method = ''POST'',
        req_headers =
          [(''Authorization'', ''Bearer '' @ cfg_apiKey config),
           (''X-Tenant-Slug'', cfg_tenant config),
           (''Content-Type'', ''application/json'')],
        body =
          JObj [(''jsonrpc'', JStr ''2.0''),
                (''id'', JNum 1),
                (''method'', JStr ''tools/call''),
                (''params'',
                 JObj [(''name'', JStr (tool_name c)),
                       (''arguments'', JObj (call_params c))])] \<rparr>]"
  by (simp add: perform_mcpCall mcpCall_sent_new perform_all_this request_def payload_def
        new_state_def constructor_def)

text \<open>
  C9. No operation changes the client: after one call, and after any sequence of calls
  of the nine operations, \<open>baseUrl\<close>, \<open>headers\<close> and \<open>timeout\<close> are what the constructor
  set them to.
\<close>

theorem configuration_frame:
  "this (snd (perform c net s)) = this s
   \<and> this (perform_all cs s) = this s
   \<and> baseUrl (this (perform_all cs (new_state config))) = baseUrl (constructor config)
   \<and> headers (this (perform_all cs (new_state config))) = headers (constructor config)
   \<and> timeout (this (perform_all cs (new_state config))) = timeout (constructor config)"
  by (simp add: perform_mcpCall mcpCall_this perform_all_this new_state_def)

text \<open>
  C10. A zero given for a numeric option is kept: \<open>list({limit: 0, offset: 0})\<close> sends
  \<open>limit = 0\<close> and \<open>offset = 0\<close>; list's defaults 50 and 0 replace the option exactly when
  it is \<open>undefined\<close> or \<open>null\<close>; create and update called with \<open>importance = 0\<close> send
  \<open>importance = 0\<close>, whatever the other options are.
\<close>

theorem zero_values_preserved:
  "list_params (Given \<lparr> lo_limit = Given 0, lo_offset = Given 0, lo_workspace = Undefined,
                        lo_memoryType = Undefined, lo_tags = Undefined \<rparr>) =
     [(''limit'', JNum 0), (''offset'', JNum 0)]
   \<and> map_of (list_params (Given (lo\<lparr> lo_limit := Given 0, lo_offset := Given 0 \<rparr>))) ''limit''
       = Some (JNum 0)
   \<and> map_of (list_params (Given (lo\<lparr> lo_limit := Given 0, lo_offset := Given 0 \<rparr>))) ''offset''
       = Some (JNum 0)
   \<and> map_of (list_params (Given lo)) ''limit'' =
       Some (JNum (case lo_limit lo of Given n \<Rightarrow> n | Undefined \<Rightarrow> 50 | Null \<Rightarrow> 50))
   \<and> map_of (list_params (Given lo)) ''offset'' =
       Some (JNum (case lo_offset lo of Given n \<Rightarrow> n | Undefined \<Rightarrow> 0 | Null \<Rightarrow> 0))
   \<and> map_of (create_params content (Given (co\<lparr> co_importance := Given 0 \<rparr>))) ''importance''
       = Some (JNum 0)
   \<and> map_of (update_params memoryId (uo\<lparr> uo_importance := Given 0 \<rparr>)) ''importance''
       = Some (JNum 0)"
proof -
  have "list_params (Given \<lparr> lo_limit = Given 0, lo_offset = Given 0, lo_workspace = Undefined,
                        lo_memoryType = Undefined, lo_tags = Undefined \<rparr>) =
     [(''limit'', JNum 0), (''offset'', JNum 0)]"
    by (simp add: list_params_def assign_if_def)
  then show ?thesis
    using list_params_lookup[of lo]
      list_params_lookup[of "lo\<lparr> lo_limit := Given 0, lo_offset := Given 0 \<rparr>"]
      create_params_lookup[of content "co\<lparr> co_importance := Given 0 \<rparr>"]
      update_params_lookup[of memoryId "uo\<lparr> uo_importance := Given 0 \<rparr>"]
    by simp
qed

end
